theory Spec2Isabelle
  imports Complex_Main
begin

section \<open>Data model of \<^verbatim>\<open>lunar_tools/fontrender.py\<close>\<close>

text \<open>
  The module consists of one function, \<^verbatim>\<open>add_text_to_image\<close>, which the specification
  calls \<^verbatim>\<open>render\<close>. It calls into the imaging library (PIL), \<^verbatim>\<open>platform\<close> and
  \<^verbatim>\<open>os.path\<close>. Those calls are not code of the module, so they enter the model as the
  fields of an environment record; the control flow, the arithmetic and the error
  branches of the module itself are translated line by line.

  Python floats are modelled as exact reals (no rounding, no NaN, no infinity) and
  Python integers as \<open>int\<close>. Image objects live in a store indexed by references,
  because the function returns the very object it was given when that is an image.
\<close>

type_synonym rgb = "nat \<times> nat \<times> nat"

type_synonym ndarray = "rgb list list"

record image =
  im_mode :: string
  im_size :: "nat \<times> nat"
  im_pixels :: "int \<times> int \<Rightarrow> rgb option"

record font =
  font_file :: string
  font_px :: int

type_synonym ref = nat

record store =
  objs :: "ref \<Rightarrow> image"
  next_ref :: ref

datatype img_input = Tuple nat nat | NdArray ndarray | PILImage ref | Other

datatype error = ValueError string | AssertionError string

text \<open>
  The library and the host: \<^verbatim>\<open>platform.system()\<close>, \<^verbatim>\<open>os.path.exists\<close>,
  \<^verbatim>\<open>Image.fromarray\<close>, \<^verbatim>\<open>ImageDraw.textlength\<close> and \<^verbatim>\<open>ImageDraw.text\<close>.
  A drawing handle is bound to one image, so the image is an argument of the last two.
\<close>

record env =
  platform_system :: string
  path_exists :: "string \<Rightarrow> bool"
  fromarray :: "ndarray \<Rightarrow> image"
  textlength :: "image \<Rightarrow> string \<Rightarrow> font \<Rightarrow> real"
  draw_text :: "image \<Rightarrow> real \<times> int \<Rightarrow> string \<Rightarrow> font \<Rightarrow> rgb \<Rightarrow> image"

text \<open>\<^verbatim>\<open>Image.new(mode, size, color)\<close>: every pixel of the canvas has the given colour.\<close>

definition Image_new :: "string \<Rightarrow> nat \<times> nat \<Rightarrow> rgb \<Rightarrow> image" where
  "Image_new mode sz color =
     \<lparr>im_mode = mode, im_size = sz,
      im_pixels = (\<lambda>(px, py).
        if 0 \<le> px \<and> px < int (fst sz) \<and> 0 \<le> py \<and> py < int (snd sz) then Some color else None)\<rparr>"

text \<open>\<^verbatim>\<open>ImageFont.truetype(font_path, font_size)\<close>: the font object records file and size.\<close>

definition truetype :: "string \<Rightarrow> int \<Rightarrow> font" where
  "truetype font_path font_size = \<lparr>font_file = font_path, font_px = font_size\<rparr>"

text \<open>A constructor call creates a new object at the next free reference.\<close>

definition alloc :: "store \<Rightarrow> image \<Rightarrow> store \<times> ref" where
  "alloc st im = (st\<lparr>objs := (objs st)(next_ref st := im), next_ref := Suc (next_ref st)\<rparr>, next_ref st)"

section \<open>The steps of \<^verbatim>\<open>add_text_to_image\<close>\<close>

text \<open>Lines 45 to 52: create an image or take the one given.\<close>

definition resolve_image :: "env \<Rightarrow> store \<Rightarrow> img_input \<Rightarrow> error + store \<times> ref" where
  "resolve_image E st img_input =
     (case img_input of
        Tuple w h \<Rightarrow> Inr (alloc st (Image_new ''RGB'' (w, h) (255, 255, 255)))
      | NdArray a \<Rightarrow> Inr (alloc st (fromarray E a))
      | PILImage r \<Rightarrow> Inr (st, r)
      | Other \<Rightarrow>
          Inl (ValueError ''img_input must be a PIL.Image, numpy array, or a (width, height) tuple.''))"

text \<open>Lines 62 to 66: the suffix of the font file.\<close>

definition font_extension :: "string option \<Rightarrow> string" where
  "font_extension font_type =
     (if font_type = Some ''italic'' then ''i.ttf''
      else if font_type = Some ''bold'' then ''bd.ttf''
      else ''.ttf'')"

text \<open>Lines 68 to 75: the font path. The character \<open>0x5C\<close> is the backslash.\<close>

definition font_path_for :: "string \<Rightarrow> string \<Rightarrow> string \<Rightarrow> error + string" where
  "font_path_for os_name font_name ext =
     (if os_name = ''Darwin'' then Inr (''/System/Library/Fonts/'' @ font_name @ ext)
      else if os_name = ''Linux'' then Inr (''/usr/share/fonts/truetype/'' @ font_name @ ext)
      else if os_name = ''Windows'' then
        Inr (''C:'' @ [CHR 0x5C] @ ''Windows'' @ [CHR 0x5C] @ ''Fonts'' @ [CHR 0x5C]
             @ font_name @ ext)
      else Inl (ValueError ''Unsupported operating system for font path.''))"

text \<open>
  Lines 83 to 90: the font-size search. The loop has no variant in the source, so the
  model is a partial function: \<open>None\<close> stands for a loop that never exits. The
  argument \<open>tlen\<close> is \<^verbatim>\<open>draw.textlength(text, font=...)\<close> of the current image and text.
\<close>

partial_function (option) fit_loop ::
  "(font \<Rightarrow> real) \<Rightarrow> string \<Rightarrow> real \<Rightarrow> real \<Rightarrow> int \<Rightarrow> int \<Rightarrow> font \<Rightarrow> real
     \<Rightarrow> (int \<times> font \<times> real) option" where
  "fit_loop tlen font_path scaled_min_width scaled_max_width height font_size font text_width =
     (if (text_width < scaled_min_width \<or> text_width > scaled_max_width) \<and> font_size < height
      then
        (let font_size' = (if text_width < scaled_min_width then font_size + 1 else font_size - 1);
             font' = truetype font_path font_size'
         in fit_loop tlen font_path scaled_min_width scaled_max_width height
              font_size' font' (tlen font'))
      else Some (font_size, font, text_width))"

text \<open>
  Lines 94 to 101: the horizontal offset. \<^verbatim>\<open>//\<close> on a float is the floor of the
  quotient. The character \<open>0x27\<close> closes the quotation in the message.
\<close>

definition text_x :: "string \<Rightarrow> nat \<Rightarrow> real \<Rightarrow> error + real" where
  "text_x align width text_width =
     (if align = ''left'' then Inr 0
      else if align = ''center'' then Inr (of_int \<lfloor>(real width - text_width) / 2\<rfloor>)
      else if align = ''right'' then Inr (real width - text_width)
      else Inl (ValueError (''align must be 'left', 'center', or 'right'' @ [CHR 0x27])))"

text \<open>Python's \<^verbatim>\<open>int()\<close> of a float drops the fraction, rounding towards zero.\<close>

definition py_int :: "real \<Rightarrow> int" where
  "py_int r = (if r < 0 then \<lceil>r\<rceil> else \<lfloor>r\<rfloor>)"

text \<open>Line 103: the vertical offset; \<^verbatim>\<open>text_height\<close> is the font size (line 93).\<close>

definition text_y :: "real \<Rightarrow> nat \<Rightarrow> int \<Rightarrow> int" where
  "text_y y_pos height text_height = py_int (y_pos * of_int (int height - text_height))"

text \<open>
  The whole function, lines 44 to 107. The result is \<open>None\<close> when the search loop
  never exits, \<open>Some (Inl e)\<close> when an exception \<open>e\<close> is raised, and otherwise
  \<open>Some (Inr (st', r))\<close>: the store after the call and the reference returned.
\<close>

definition add_text_to_image ::
  "env \<Rightarrow> store \<Rightarrow> img_input \<Rightarrow> string \<Rightarrow> string \<Rightarrow> real \<Rightarrow> string \<Rightarrow> int \<Rightarrow> real \<Rightarrow> real
     \<Rightarrow> rgb \<Rightarrow> string option \<Rightarrow> (error + store \<times> ref) option" where
  "add_text_to_image E st img_input text align y_pos font_name font_size min_width max_width
     font_color font_type =
     (case resolve_image E st img_input of
        Inl e \<Rightarrow> Some (Inl e)
      | Inr (st1, r) \<Rightarrow>
          (let image = objs st1 r;
               width = fst (im_size image);
               height = snd (im_size image);
               scaled_min_width = min_width * real width;
               scaled_max_width = max_width * real width;
               os_name = platform_system E
           in case font_path_for os_name font_name (font_extension font_type) of
                Inl e \<Rightarrow> Some (Inl e)
              | Inr font_path \<Rightarrow>
                  if \<not> path_exists E font_path
                  then Some (Inl (AssertionError (font_path @ '' does not exist! '')))
                  else
                    (let font = truetype font_path font_size;
                         text_width = textlength E image text font
                     in case fit_loop (textlength E image text) font_path scaled_min_width
                               scaled_max_width (int height) font_size font text_width of
                          None \<Rightarrow> None
                        | Some (font_size', font', text_width') \<Rightarrow>
                            (case text_x align width text_width' of
                               Inl e \<Rightarrow> Some (Inl e)
                             | Inr x \<Rightarrow>
                                 (let y = text_y y_pos height font_size'
                                  in Some (Inr (st1\<lparr>objs := (objs st1)
                                       (r := draw_text E image (x, y) text font' font_color)\<rparr>,
                                       r)))))))"

section \<open>A host with one monospaced font, for the examples\<close>

text \<open>
  Each glyph of the example font is half as wide as the font size, so a text of
  \<open>n\<close> characters measures \<open>n * size / 2\<close> pixels. Drawing paints the rectangle of
  that width and of the height of the font size, clipped to the image.
\<close>

definition mono_textlength :: "image \<Rightarrow> string \<Rightarrow> font \<Rightarrow> real" where
  "mono_textlength im text f = real (length text) * of_int (font_px f) / 2"

definition mono_bbox :: "real \<times> int \<Rightarrow> string \<Rightarrow> font \<Rightarrow> (int \<times> int) set" where
  "mono_bbox xy text f =
     {(px, py). fst xy \<le> of_int px \<and> of_int px < fst xy + real (length text) * of_int (font_px f) / 2
                \<and> snd xy \<le> py \<and> py < snd xy + font_px f}"

definition mono_draw_text :: "image \<Rightarrow> real \<times> int \<Rightarrow> string \<Rightarrow> font \<Rightarrow> rgb \<Rightarrow> image" where
  "mono_draw_text im xy text f fill =
     im\<lparr>im_pixels := (\<lambda>p. if p \<in> mono_bbox xy text f \<and> im_pixels im p \<noteq> None then Some fill
                             else im_pixels im p)\<rparr>"

definition array_image :: "ndarray \<Rightarrow> image" where
  "array_image a =
     \<lparr>im_mode = ''RGB'',
      im_size = (case a of [] \<Rightarrow> 0 | row # _ \<Rightarrow> length row, length a),
      im_pixels = (\<lambda>(px, py).
        if 0 \<le> px \<and> 0 \<le> py \<and> nat py < length a \<and> nat px < length (a ! nat py)
        then Some (a ! nat py ! nat px) else None)\<rparr>"

definition mono_env :: env where
  "mono_env =
     \<lparr>platform_system = ''Linux'',
      path_exists = (\<lambda>p. p = ''/usr/share/fonts/truetype/Arial.ttf''),
      fromarray = array_image,
      textlength = mono_textlength,
      draw_text = mono_draw_text\<rparr>"

definition empty_store :: store where
  "empty_store = \<lparr>objs = (\<lambda>r. Image_new ''RGB'' (0, 0) (0, 0, 0)), next_ref = 0\<rparr>"

definition canvas :: image where
  "canvas = Image_new ''RGB'' (100, 500) (255, 255, 255)"



section \<open>The font-size search\<close>

lemma fit_loop_exit:
  assumes "fit_loop tlen font_path smin smax height font_size font text_width = Some y"
  shows "(smin \<le> snd (snd y) \<and> snd (snd y) \<le> smax) \<or> height \<le> fst y"
  by (rule fit_loop.raw_induct
        [where P = "\<lambda>tlen fp smin smax h fs f tw y.
                      (smin \<le> snd (snd y) \<and> snd (snd y) \<le> smax) \<or> h \<le> fst y",
         OF _ assms])
     (auto simp: Let_def split: if_splits)


lemma fit_loop_diverges:
  assumes inv: "I font_size font text_width"
    and step: "\<And>fs f tw. I fs f tw \<Longrightarrow>
         (tw < smin \<or> tw > smax) \<and> fs < height \<and>
         I (if tw < smin then fs + 1 else fs - 1)
           (truetype fp (if tw < smin then fs + 1 else fs - 1))
           (tlen (truetype fp (if tw < smin then fs + 1 else fs - 1)))"
  shows "fit_loop tlen fp smin smax height font_size font text_width = None"
proof (rule ccontr)
  assume "fit_loop tlen fp smin smax height font_size font text_width \<noteq> None"
  then obtain y where run: "fit_loop tlen fp smin smax height font_size font text_width = Some y"
    by blast
  have "\<not> (tlen = tlen \<and> fp = fp \<and> smin = smin \<and> smax = smax \<and> height = height
            \<and> I font_size font text_width)"
  proof (rule fit_loop.raw_induct
          [where P = "\<lambda>tlen' fp' smin' smax' h' fs f tw y.
                        \<not> (tlen' = tlen \<and> fp' = fp \<and> smin' = smin \<and> smax' = smax \<and> h' = height
                           \<and> I fs f tw)", OF _ run])
    fix loop and tlen' :: "font \<Rightarrow> real" and fp' :: string and smin' smax' :: real
      and h' fs :: int and f :: font and tw :: real and y' :: "int \<times> font \<times> real"
    assume IH: "\<And>tlen' fp' smin' smax' h' fs f tw y. loop tlen' fp' smin' smax' h' fs f tw = Some y \<Longrightarrow>
                \<not> (tlen' = tlen \<and> fp' = fp \<and> smin' = smin \<and> smax' = smax \<and> h' = height \<and> I fs f tw)"
      and body: "(if (tw < smin' \<or> smax' < tw) \<and> fs < h'
          then let font_size' = if tw < smin' then fs + 1 else fs - 1;
                   font' = truetype fp' font_size'
               in loop tlen' fp' smin' smax' h' font_size' font' (tlen' font')
          else Some (fs, f, tw)) = Some y'"
    show "\<not> (tlen' = tlen \<and> fp' = fp \<and> smin' = smin \<and> smax' = smax \<and> h' = height \<and> I fs f tw)"
    proof
      assume eq: "tlen' = tlen \<and> fp' = fp \<and> smin' = smin \<and> smax' = smax \<and> h' = height \<and> I fs f tw"
      from step [of fs f tw] eq
      have cond: "(tw < smin \<or> tw > smax) \<and> fs < height"
        and nxt: "I (if tw < smin then fs + 1 else fs - 1)
           (truetype fp (if tw < smin then fs + 1 else fs - 1))
           (tlen (truetype fp (if tw < smin then fs + 1 else fs - 1)))"
        by blast+
      from body eq cond
      have "loop tlen fp smin smax height (if tw < smin then fs + 1 else fs - 1)
              (truetype fp (if tw < smin then fs + 1 else fs - 1))
              (tlen (truetype fp (if tw < smin then fs + 1 else fs - 1))) = Some y'"
        by (simp add: Let_def)
      from IH [OF this] nxt show False
        by blast
    qed
  qed
  with inv show False by blast
qed


lemma width_gap:
  fixes fs :: int
  assumes "\<not> 7 * real_of_int fs < 50"
  shows "55 < 7 * real_of_int fs"
proof -
  from assms have "real_of_int 50 \<le> real_of_int (7 * fs)"
    by simp
  then have "50 \<le> 7 * fs"
    by (simp only: of_int_le_iff)
  then have "8 \<le> fs"
    by arith
  then have "real_of_int 8 \<le> real_of_int fs"
    by (simp only: of_int_le_iff)
  then show ?thesis
    by simp
qed

lemma oscillation:
  "fit_loop (mono_textlength canvas ''Center Aligned'') ''/usr/share/fonts/truetype/Arial.ttf''
     50 55 500 20 (truetype ''/usr/share/fonts/truetype/Arial.ttf'' 20) 140 = None"
  by (rule fit_loop_diverges [where I = "\<lambda>fs f tw. 7 \<le> fs \<and> fs \<le> 20 \<and> tw = of_int (7 * fs)"])
     (auto simp: mono_textlength_def truetype_def width_gap)


text \<open>
  The test \<open>font_size < height\<close> of the loop bounds the increasing direction only: a
  text that is never wider than the maximum makes the search return, from any start.
\<close>

lemma fit_loop_returns_when_growing:
  assumes narrow: "\<And>k. tlen (truetype p k) \<le> smax" and start: "tw \<le> smax"
  shows "\<exists>y. fit_loop tlen p smin smax height fs f tw = Some y"
  using start
proof (induction "nat (height - fs)" arbitrary: fs f tw)
  case 0
  then have "\<not> fs < height" by simp
  then show ?case
    by (subst fit_loop.simps) simp
next
  case (Suc n)
  show ?case
  proof (cases "tw < smin")
    case True
    from Suc.hyps(2) have "n = nat (height - (fs + 1))" and lt: "fs < height"
      by simp_all
    from Suc.hyps(1) [OF this(1) narrow]
    obtain y where "fit_loop tlen p smin smax height (fs + 1) (truetype p (fs + 1))
                      (tlen (truetype p (fs + 1))) = Some y"
      by blast
    moreover from True lt
    have "fit_loop tlen p smin smax height fs f tw =
          fit_loop tlen p smin smax height (fs + 1) (truetype p (fs + 1))
            (tlen (truetype p (fs + 1)))"
      by (subst fit_loop.simps) (simp add: Let_def)
    ultimately show ?thesis
      by metis
  next
    case False
    with Suc.prems show ?thesis
      by (subst fit_loop.simps) simp
  qed
qed

text \<open>
  C3. Whenever the font-size search returns, the measured width it returns lies between
  \<open>min_width * W\<close> and \<open>max_width * W\<close>, or the font size it returns is at least the
  image height \<open>H\<close>.
\<close>

theorem fit_loop_postcondition:
  assumes "fit_loop tlen font_path (min_width * real W) (max_width * real W) (int H)
             font_size font text_width = Some (font_size', font', text_width')"
  shows "(min_width * real W \<le> text_width' \<and> text_width' \<le> max_width * real W)
         \<or> int H \<le> font_size'"
  using fit_loop_exit [OF assms] by simp

theorem fit_loop_postcondition_witness:
  "fit_loop (mono_textlength canvas ''Center Aligned'') ''Arial.ttf'' (0.5 * real 100)
     (0.6 * real 100) (int 500) 20 (truetype ''Arial.ttf'' 20) 140
     = Some (8, truetype ''Arial.ttf'' 8, 56)
   \<and> ((0.5 * real 100 \<le> (56 :: real) \<and> (56 :: real) \<le> 0.6 * real 100) \<or> int 500 \<le> 8)"
proof -
  have run: "fit_loop (mono_textlength canvas ''Center Aligned'') ''Arial.ttf'' (0.5 * real 100)
     (0.6 * real 100) (int 500) 20 (truetype ''Arial.ttf'' 20) 140
     = Some (8, truetype ''Arial.ttf'' 8, 56)"
    by (simp add: fit_loop.simps mono_textlength_def truetype_def)
  from run fit_loop_postcondition [OF run] show ?thesis
    by blast
qed

section \<open>Placement of the text\<close>

text \<open>
  C4. The horizontal offset follows the alignment: \<open>left\<close> gives 0; \<open>center\<close> gives
  \<open>(W - text_width) / 2\<close> rounded down, so less than one pixel below it; \<open>right\<close>
  gives an offset \<open>x\<close> with \<open>x + text_width = W\<close>.
\<close>

theorem text_x_alignment:
  "text_x ''left'' W tw = Inr 0 \<and>
   (\<exists>x. text_x ''center'' W tw = Inr x \<and> x \<le> (real W - tw) / 2 \<and> (real W - tw) / 2 < x + 1) \<and>
   (\<exists>x. text_x ''right'' W tw = Inr x \<and> x + tw = real W)"
proof -
  define half where "half = (real W - tw) / 2"
  have left: "text_x ''left'' W tw = Inr 0"
    by (simp add: text_x_def)
  have center: "text_x ''center'' W tw = Inr (of_int \<lfloor>half\<rfloor>)"
    by (simp add: text_x_def half_def)
  have floor_half: "of_int \<lfloor>half\<rfloor> \<le> half \<and> half < of_int \<lfloor>half\<rfloor> + 1"
    by linarith
  have right: "text_x ''right'' W tw = Inr (real W - tw)"
    by (simp add: text_x_def)
  have sum: "(real W - tw) + tw = real W"
    by simp
  from left center floor_half right sum show ?thesis
    unfolding half_def by blast
qed

section \<open>The font file\<close>

text \<open>
  C6. The suffix of the font file depends on \<open>font_type\<close> alone: no style gives
  \<open>.ttf\<close>, \<open>italic\<close> gives \<open>i.ttf\<close>, \<open>bold\<close> gives \<open>bd.ttf\<close>, and every other value,
  \<open>bold/italic\<close> among them, gives the plain \<open>.ttf\<close>. The directory in front of the
  font name is fixed by the operating system.
\<close>

theorem font_file_naming:
  "font_extension None = ''.ttf'' \<and>
   font_extension (Some ''italic'') = ''i.ttf'' \<and>
   font_extension (Some ''bold'') = ''bd.ttf'' \<and>
   (font_type \<noteq> Some ''italic'' \<longrightarrow> font_type \<noteq> Some ''bold'' \<longrightarrow>
      font_extension font_type = ''.ttf'') \<and>
   font_path_for ''Darwin'' font_name ext = Inr (''/System/Library/Fonts/'' @ font_name @ ext) \<and>
   font_path_for ''Linux'' font_name ext = Inr (''/usr/share/fonts/truetype/'' @ font_name @ ext) \<and>
   font_path_for ''Windows'' font_name ext =
     Inr (''C:'' @ [CHR 0x5C] @ ''Windows'' @ [CHR 0x5C] @ ''Fonts'' @ [CHR 0x5C] @ font_name @ ext)"
  by (simp add: font_extension_def font_path_for_def)

theorem font_file_naming_witness:
  "Some ''bold/italic'' \<noteq> Some ''italic'' \<and> Some ''bold/italic'' \<noteq> Some ''bold'' \<and>
   font_extension (Some ''bold/italic'') = ''.ttf'' \<and>
   font_path_for ''Linux'' ''Calibri'' ''bd.ttf'' = Inr ''/usr/share/fonts/truetype/Calibribd.ttf''"
  using font_file_naming [of "Some ''bold/italic''" "''Calibri''" "''bd.ttf''"]
  by simp

section \<open>The whole call\<close>

text \<open>
  C1 claims that the font-size search terminates on every call. It does not: on a
  100 by 500 canvas, with the text \<open>Center Aligned\<close> of 14 glyphs, each half as wide as
  the font size, and the width limits 0.5 and 0.55, the width is 49 at size 7 (below
  the minimum 50) and 56 at size 8 (above the maximum 55). The search started at size
  20 comes down to 8 and then alternates between 7 and 8 for ever, far below the height
  500 that the loop condition tests. The call never returns.
\<close>

theorem search_never_returns:
  "add_text_to_image mono_env empty_store (Tuple 100 500) ''Center Aligned'' ''center'' 0.5
     ''Arial'' 20 0.5 0.55 (0, 0, 0) None = None"
  using oscillation
  by (simp add: add_text_to_image_def resolve_image_def alloc_def empty_store_def Image_new_def
        mono_env_def font_path_for_def font_extension_def canvas_def mono_textlength_def truetype_def)









lemmas run_defs = add_text_to_image_def resolve_image_def alloc_def Image_new_def
  font_path_for_def font_extension_def text_x_def text_y_def py_int_def truetype_def Let_def

lemmas mono_defs = mono_env_def mono_textlength_def empty_store_def canvas_def










text \<open>
  C9. The search has no lower bound on the font size. If the text is wider than the
  maximum at every size above \<open>m\<close> up to the initial size \<open>n\<close>, and fits at \<open>m\<close>, the
  search returns the size \<open>m\<close>, with the font loaded and the text measured at \<open>m\<close>,
  for every integer \<open>m\<close>: zero and negative sizes are not rejected and not clamped.
\<close>

theorem search_has_no_lower_bound:
  fixes m n :: int
  assumes "m \<le> n" and "n < height" and "smin \<le> smax"
    and wide: "\<And>k. m < k \<Longrightarrow> k \<le> n \<Longrightarrow> smax < tlen (truetype p k)"
    and fits: "smin \<le> tlen (truetype p m)" "tlen (truetype p m) \<le> smax"
  shows "fit_loop tlen p smin smax height n (truetype p n) (tlen (truetype p n))
         = Some (m, truetype p m, tlen (truetype p m))"
  using assms(1,2) wide
proof (induction n rule: int_ge_induct)
  case base
  from fits show ?case
    by (subst fit_loop.simps) simp
next
  case (step i)
  from step.prems have IH: "fit_loop tlen p smin smax height i (truetype p i) (tlen (truetype p i))
         = Some (m, truetype p m, tlen (truetype p m))"
    by (intro step.IH) auto
  from step.hyps step.prems(2) [of "i + 1"] have w: "smax < tlen (truetype p (i + 1))"
    by simp
  with \<open>smin \<le> smax\<close> have "\<not> tlen (truetype p (i + 1)) < smin"
    by simp
  with w step.prems(1) IH show ?case
    by (subst fit_loop.simps) (simp add: Let_def)
qed

theorem search_has_no_lower_bound_witness:
  "fit_loop (mono_textlength canvas ''Center Aligned'') ''/usr/share/fonts/truetype/Arial.ttf''
     0 5 500 1 (truetype ''/usr/share/fonts/truetype/Arial.ttf'' 1) 7
     = Some (0, truetype ''/usr/share/fonts/truetype/Arial.ttf'' 0, 0) \<and>
   (\<exists>st'. add_text_to_image mono_env empty_store (Tuple 100 500) ''Center Aligned'' ''center'' 0.5
           ''Arial'' 1 0 0.05 (0, 0, 0) None = Some (Inr (st', 0)) \<and>
         objs st' 0 = mono_draw_text canvas (50, 250) ''Center Aligned''
                        (truetype ''/usr/share/fonts/truetype/Arial.ttf'' 0) (0, 0, 0))"
proof -
  let ?p = "''/usr/share/fonts/truetype/Arial.ttf''"
  let ?tlen = "mono_textlength canvas ''Center Aligned''"
  have wide: "5 < ?tlen (truetype ?p k)" if "0 < k" "k \<le> 1" for k :: int
  proof -
    from that have "k = 1" by simp
    then show ?thesis by (simp add: mono_textlength_def truetype_def)
  qed
  have fits: "0 \<le> ?tlen (truetype ?p 0)" "?tlen (truetype ?p 0) \<le> 5"
    by (simp_all add: mono_textlength_def truetype_def)
  have "fit_loop ?tlen ?p 0 5 500 1 (truetype ?p 1) (?tlen (truetype ?p 1))
        = Some (0, truetype ?p 0, ?tlen (truetype ?p 0))"
    by (rule search_has_no_lower_bound [where m = 0 and n = 1 and height = 500 and smin = 0 and smax = 5])
       (use wide fits in simp_all)
  then have loop: "fit_loop ?tlen ?p 0 5 500 1 (truetype ?p 1) 7 = Some (0, truetype ?p 0, 0)"
    by (simp add: mono_textlength_def truetype_def)
  then have "\<exists>st'. add_text_to_image mono_env empty_store (Tuple 100 500) ''Center Aligned''
           ''center'' 0.5 ''Arial'' 1 0 0.05 (0, 0, 0) None = Some (Inr (st', 0)) \<and>
         objs st' 0 = mono_draw_text canvas (50, 250) ''Center Aligned'' (truetype ?p 0) (0, 0, 0)"
    by (simp add: run_defs mono_defs)
  with loop show ?thesis
    by blast
qed

section \<open>The image: source and frame\<close>















end
